theory Spec2Isabelle
  imports Complex_Main "HOL-Library.Multiset" "HOL-Library.Sublist"
begin

section \<open>Data model\<close>

text \<open>
  A value of TypeScript type \<^verbatim>\<open>unknown\<close> as it reaches the client from a JSONB column:
  \<^verbatim>\<open>metadata: Record<string, unknown> | null\<close> holds such values, and
  \<^verbatim>\<open>fieldIncludes(field: unknown, needle: string)\<close> inspects one.
  \<open>JUndefined\<close> is what \<^verbatim>\<open>s.metadata?.level\<close> yields when \<^verbatim>\<open>metadata\<close> is null or has
  no \<^verbatim>\<open>level\<close> key.
\<close>

datatype unknown =
    JUndefined
  | JNull
  | JBoolean bool
  | JNumber rat
  | JString string
  | JArray "unknown list"
  | JObject "(string \<times> unknown) list"

text \<open>
  The client's \<^verbatim>\<open>Resource\<close> interface (lib/supabase.ts), field by field. The two
  timestamps are kept as the store has them (\<^verbatim>\<open>TIMESTAMP WITH TIME ZONE\<close>, microseconds
  since the epoch), since the store orders by them; the client declares both non-null.
\<close>

record resource =
  resource_id :: string
  title :: string
  description :: "string option"
  url :: "string option"
  category :: string
  country :: string
  institution :: "string option"
  deadline :: "string option"
  eligibility :: "string option"
  amount :: "string option"
  tags :: "string list option"
  last_updated :: int
  created_at :: int
  metadata :: "(string \<times> unknown) list option"

section \<open>The tag/level filter of the scholarships page\<close>

text \<open>
  \<^verbatim>\<open>String.prototype.includes\<close>: does \<open>needle\<close> occur in \<open>hay\<close> as a contiguous
  run of characters.
\<close>

fun string_includes :: "string \<Rightarrow> string \<Rightarrow> bool" where
  "string_includes [] needle = (needle = [])"
| "string_includes (c # cs) needle = (prefix needle (c # cs) \<or> string_includes cs needle)"

text \<open>
  \<^verbatim>\<open>
  const fieldIncludes = (field: unknown, needle: string) => {
    if (typeof field === 'string') return field.includes(needle)
    if (Array.isArray(field)) return field.includes(needle)
    return false
  }
  \<close>
  \<^verbatim>\<open>Array.prototype.includes\<close> compares with SameValueZero, so a string needle is found
  exactly when some element is that string.
\<close>

fun fieldIncludes :: "unknown \<Rightarrow> string \<Rightarrow> bool" where
  "fieldIncludes (JString field) needle = string_includes field needle"
| "fieldIncludes (JArray field) needle = (JString needle \<in> set field)"
| "fieldIncludes _ needle = False"

text \<open>\<^verbatim>\<open>s.metadata?.level\<close>\<close>

definition metadata_level :: "resource \<Rightarrow> unknown" where
  "metadata_level s =
     (case metadata s of
        None \<Rightarrow> JUndefined
      | Some m \<Rightarrow> (case map_of m ''level'' of None \<Rightarrow> JUndefined | Some v \<Rightarrow> v))"

text \<open>\<^verbatim>\<open>s.tags\<close>, of type \<^verbatim>\<open>string[] | null\<close>, passed where \<^verbatim>\<open>unknown\<close> is expected.\<close>

definition tags_field :: "resource \<Rightarrow> unknown" where
  "tags_field s = (case tags s of None \<Rightarrow> JNull | Some ts \<Rightarrow> JArray (map JString ts))"

text \<open>
  \<^verbatim>\<open>
  const undergrad = scholarships.filter(s =>
    fieldIncludes(s.metadata?.level, 'Undergraduate') || fieldIncludes(s.tags, 'undergraduate'))
  const graduate = scholarships.filter(s =>
    fieldIncludes(s.metadata?.level, 'Masters') || fieldIncludes(s.metadata?.level, 'PhD') ||
    fieldIncludes(s.tags, 'graduate') || fieldIncludes(s.tags, 'doctoral'))
  \<close>
\<close>

definition undergrad :: "resource list \<Rightarrow> resource list" where
  "undergrad scholarships =
     filter (\<lambda>s. fieldIncludes (metadata_level s) ''Undergraduate''
                \<or> fieldIncludes (tags_field s) ''undergraduate'') scholarships"

definition graduate :: "resource list \<Rightarrow> resource list" where
  "graduate scholarships =
     filter (\<lambda>s. fieldIncludes (metadata_level s) ''Masters''
                \<or> fieldIncludes (metadata_level s) ''PhD''
                \<or> fieldIncludes (tags_field s) ''graduate''
                \<or> fieldIncludes (tags_field s) ''doctoral'') scholarships"

section \<open>The resources table and its category constraint\<close>

text \<open>
  schema.sql:
  \<^verbatim>\<open>category TEXT NOT NULL CHECK (category IN ('scholarship', 'visa', 'job', 'accommodation', 'general'))\<close>
\<close>

definition schema_categories :: "string list" where
  "schema_categories = [''scholarship'', ''visa'', ''job'', ''accommodation'', ''general'']"

text \<open>
  seed_resources.sql, step 1:
  \<^verbatim>\<open>CHECK (category IN ('scholarship', 'visa', 'job', 'accommodation', 'general', 'university'))\<close>
\<close>

definition seed_categories :: "string list" where
  "seed_categories =
     [''scholarship'', ''visa'', ''job'', ''accommodation'', ''general'', ''university'']"

text \<open>
  lib/supabase.ts, the client's type:
  \<^verbatim>\<open>category: 'scholarship' | 'visa' | 'job' | 'accommodation' | 'general'\<close>
\<close>

definition Resource_category_union :: "string list" where
  "Resource_category_union = [''scholarship'', ''visa'', ''job'', ''accommodation'', ''general'']"

text \<open>
  The state of the table: its rows in insertion order and the constraint
  \<^verbatim>\<open>resources_category_check\<close> currently in force (\<open>None\<close> once it is dropped).
  The column is \<^verbatim>\<open>NOT NULL\<close>, so a written category is a text value.
\<close>

record store =
  rows :: "resource list"
  category_check :: "string list option"

datatype sql_error = CheckViolation | NegativeLimit

definition check_passes :: "string list option \<Rightarrow> string \<Rightarrow> bool" where
  "check_passes chk c = (case chk of None \<Rightarrow> True | Some allowed \<Rightarrow> c \<in> set allowed)"

text \<open>\<^verbatim>\<open>CREATE TABLE resources (...)\<close> of schema.sql.\<close>

definition create_resources_table :: store where
  "create_resources_table = \<lparr>rows = [], category_check = Some schema_categories\<rparr>"

text \<open>
  \<^verbatim>\<open>INSERT INTO resources (...) VALUES (...)\<close> of one row, defaults already filled in:
  the row is appended when the constraint passes and the statement fails otherwise.
\<close>

definition insert_resource :: "store \<Rightarrow> resource \<Rightarrow> sql_error + store" where
  "insert_resource st r =
     (if check_passes (category_check st) (category r)
      then Inr (st\<lparr>rows := rows st @ [r]\<rparr>)
      else Inl CheckViolation)"

text \<open>
  An in-place \<^verbatim>\<open>UPDATE resources SET category = c WHERE id = i\<close>: the constraint is
  checked on every row the statement changes.
\<close>

definition update_category :: "store \<Rightarrow> string \<Rightarrow> string \<Rightarrow> sql_error + store" where
  "update_category st i c =
     (if (\<exists>r \<in> set (rows st). resource_id r = i) \<and> \<not> check_passes (category_check st) c
      then Inl CheckViolation
      else Inr (st\<lparr>rows := map (\<lambda>r. if resource_id r = i then r\<lparr>category := c\<rparr> else r) (rows st)\<rparr>))"

text \<open>
  seed_resources.sql, step 1:
  \<^verbatim>\<open>
  ALTER TABLE resources DROP CONSTRAINT IF EXISTS resources_category_check;
  ALTER TABLE resources ADD CONSTRAINT resources_category_check CHECK (category IN (...));
  \<close>
  Adding a constraint validates the rows already stored.
\<close>

definition drop_category_check :: "store \<Rightarrow> store" where
  "drop_category_check st = st\<lparr>category_check := None\<rparr>"

definition add_category_check :: "store \<Rightarrow> string list \<Rightarrow> sql_error + store" where
  "add_category_check st allowed =
     (if \<forall>r \<in> set (rows st). category r \<in> set allowed
      then Inr (st\<lparr>category_check := Some allowed\<rparr>)
      else Inl CheckViolation)"

definition seed_step1 :: "store \<Rightarrow> sql_error + store" where
  "seed_step1 st = add_category_check (drop_category_check st) seed_categories"

text \<open>
  The states the two scripts and later writes can produce: the table as schema.sql creates
  it, then any sequence of successful inserts, category updates and runs of the seed
  script's first step.
\<close>

inductive reachable :: "store \<Rightarrow> bool" where
  created: "reachable create_resources_table"
| inserted: "reachable st \<Longrightarrow> insert_resource st r = Inr st' \<Longrightarrow> reachable st'"
| updated: "reachable st \<Longrightarrow> update_category st i c = Inr st' \<Longrightarrow> reachable st'"
| seeded: "reachable st \<Longrightarrow> seed_step1 st = Inr st' \<Longrightarrow> reachable st'"

code_pred reachable .

section \<open>Catalog listing queries\<close>

text \<open>
  What the client library hands back for a query: either the rows, or the error of a store
  that could not be reached or a query that failed (\<^verbatim>\<open>{ data, error }\<close>, exactly one of
  the two non-null).
\<close>

datatype 'a postgrest_response = ResponseSuccess 'a | ResponseFailure string

fun data :: "'a postgrest_response \<Rightarrow> 'a option" where
  "data (ResponseSuccess d) = Some d"
| "data (ResponseFailure e) = None"

fun error :: "'a postgrest_response \<Rightarrow> string option" where
  "error (ResponseSuccess d) = None"
| "error (ResponseFailure e) = Some e"

text \<open>
  How the store answers one request: not at all, or by running the query over the table.
  SQL leaves the order of rows with equal sort keys unspecified, so the order in which the
  executor meets the rows is part of the answer: \<open>Available scan\<close> carries the table's
  rows in that order, some permutation of the stored rows. A read writes nothing, and a
  table that is not written to is met in the same order at the next read.
\<close>

datatype store_access = Unavailable string | Available "resource list"

definition scans :: "store \<Rightarrow> resource list \<Rightarrow> bool" where
  "scans st scan \<longleftrightarrow> mset scan = mset (rows st)"

text \<open>
  \<^verbatim>\<open>ORDER BY key DESC\<close>: largest key first; rows with equal keys stay in the order of the
  input.
\<close>

definition order_desc :: "('a \<Rightarrow> 'k::linorder) \<Rightarrow> 'a list \<Rightarrow> 'a list" where
  "order_desc key xs = rev (sort_key key (rev xs))"

text \<open>
  \<^verbatim>\<open>
  supabase.from('resources').select('*')
    .eq('category', c)                           // when a category is given
    .order('created_at', { ascending: false })
    .limit(n)                                    // when a limit is given
  \<close>
\<close>

definition select_resources ::
    "store_access \<Rightarrow> string option \<Rightarrow> nat option \<Rightarrow> resource list postgrest_response" where
  "select_resources access eq_category limit =
     (case access of
        Unavailable e \<Rightarrow> ResponseFailure e
      | Available scan \<Rightarrow>
          (let matching = (case eq_category of
                             None \<Rightarrow> scan
                           | Some c \<Rightarrow> filter (\<lambda>r. category r = c) scan);
               ordered = order_desc created_at matching
           in ResponseSuccess (case limit of None \<Rightarrow> ordered | Some n \<Rightarrow> take n ordered)))"

text \<open>
  The listing as the specification words it, for comparison with \<open>select_resources\<close>:
  newest first, rows of equal \<^verbatim>\<open>created_at\<close> in the order of their insertion.
\<close>

definition listing_in_insertion_order :: "store \<Rightarrow> string \<Rightarrow> resource list" where
  "listing_in_insertion_order st c =
     order_desc created_at (filter (\<lambda>r. category r = c) (rows st))"

text \<open>
  A client page: the list held by its \<^verbatim>\<open>useState<Resource[]>([])\<close> and the lines written
  with \<^verbatim>\<open>console.error\<close>.
\<close>

record page =
  resources :: "resource list"
  console :: "string list"

definition initial_page :: page where
  "initial_page = \<lparr>resources = [], console = []\<rparr>"

text \<open>
  scholarships/page.tsx:
  \<^verbatim>\<open>
  const { data, error } = await supabase.from('resources').select('*')
    .eq('category', 'scholarship').order('created_at', { ascending: false })
  if (error) { console.error('Error fetching scholarships:', error); return }
  setScholarships(data as Resource[])
  \<close>
\<close>

definition fetchScholarships :: "store_access \<Rightarrow> page \<Rightarrow> page" where
  "fetchScholarships access p =
     (case select_resources access (Some ''scholarship'') None of
        ResponseFailure e \<Rightarrow> p\<lparr>console := console p @ [''Error fetching scholarships: '' @ e]\<rparr>
      | ResponseSuccess d \<Rightarrow> p\<lparr>resources := d\<rparr>)"

text \<open>
  jobs/page.tsx:
  \<^verbatim>\<open>
  const { data } = await supabase.from('resources').select('*')
    .eq('category', 'job').order('created_at', { ascending: false })
  setJobResources((data as Resource[]) || [])
  \<close>
\<close>

definition fetchJobResources :: "store_access \<Rightarrow> page \<Rightarrow> page" where
  "fetchJobResources access p =
     (case data (select_resources access (Some ''job'') None) of
        Some d \<Rightarrow> p\<lparr>resources := d\<rparr>
      | None \<Rightarrow> p\<lparr>resources := []\<rparr>)"

text \<open>The visa guide page: the same code with \<^verbatim>\<open>.eq('category', 'visa')\<close>.\<close>

definition fetchVisaResources :: "store_access \<Rightarrow> page \<Rightarrow> page" where
  "fetchVisaResources access p =
     (case data (select_resources access (Some ''visa'') None) of
        Some d \<Rightarrow> p\<lparr>resources := d\<rparr>
      | None \<Rightarrow> p\<lparr>resources := []\<rparr>)"

text \<open>
  app/page.tsx, on the server: the returned list and the console.
  \<^verbatim>\<open>
  const { data, error } = await supabase.from('resources').select('*')
    .order('created_at', { ascending: false }).limit(6)
  if (error) { console.error('Error fetching resources:', error); return [] }
  return data as Resource[]
  \<close>
\<close>

definition getRecentResources :: "store_access \<Rightarrow> string list \<Rightarrow> resource list \<times> string list" where
  "getRecentResources access out =
     (case select_resources access None (Some 6) of
        ResponseFailure e \<Rightarrow> ([], out @ [''Error fetching resources: '' @ e])
      | ResponseSuccess d \<Rightarrow> (d, out))"

section \<open>The similarity query\<close>

text \<open>The \<^verbatim>\<open>documents\<close> table; \<^verbatim>\<open>metadata\<close> and \<^verbatim>\<open>embedding\<close> are nullable.\<close>

record document =
  doc_id :: int
  content :: string
  doc_metadata :: "unknown option"
  embedding :: "real list option"

text \<open>A row of \<^verbatim>\<open>RETURNS TABLE (id BIGINT, content TEXT, metadata JSONB, similarity FLOAT)\<close>.\<close>

record 's match_row =
  match_id :: int
  match_content :: string
  match_metadata :: "unknown option"
  similarity :: 's

text \<open>
  The select list of \<^verbatim>\<open>match_documents\<close> on one stored row:
  \<^verbatim>\<open>1 - (documents.embedding <=> query_embedding) AS similarity\<close>.
  The operator \<^verbatim>\<open><=>\<close> belongs to the vector extension and is passed in as
  \<open>distance\<close>; on a null embedding it yields null, and the row has no score.
\<close>

definition scored ::
    "(real list \<Rightarrow> real list \<Rightarrow> 's::{linorder,minus,one}) \<Rightarrow> real list \<Rightarrow> document
       \<Rightarrow> 's match_row option" where
  "scored distance query_embedding d =
     map_option
       (\<lambda>e. \<lparr>match_id = doc_id d, match_content = content d, match_metadata = doc_metadata d,
              similarity = 1 - distance e query_embedding\<rparr>)
       (embedding d)"

text \<open>
  \<^verbatim>\<open>
  SELECT ... FROM documents
  WHERE 1 - (documents.embedding <=> query_embedding) > match_threshold
  ORDER BY similarity DESC
  LIMIT match_count;
  \<close>
  over the table's rows as the executor meets them, for non-null arguments. A null score
  fails the \<^verbatim>\<open>WHERE\<close> clause; a negative \<^verbatim>\<open>LIMIT\<close> is an error of the store.
\<close>

definition match_documents_with ::
    "(real list \<Rightarrow> real list \<Rightarrow> 's::{linorder,minus,one}) \<Rightarrow> document list \<Rightarrow> real list \<Rightarrow> 's \<Rightarrow> int
       \<Rightarrow> sql_error + 's match_row list" where
  "match_documents_with distance documents query_embedding match_threshold match_count =
     (if match_count < 0 then Inl NegativeLimit
      else Inr (take (nat match_count)
                  (order_desc similarity
                     (filter (\<lambda>r. similarity r > match_threshold)
                        (List.map_filter (scored distance query_embedding) documents)))))"

text \<open>
  The store's \<^verbatim>\<open>FLOAT\<close>, as far as a score and a threshold need it: a number or NaN.
  The store orders NaN above every number and equal to itself, in \<^verbatim>\<open>WHERE\<close> and in
  \<^verbatim>\<open>ORDER BY\<close> alike; a difference with a NaN operand is NaN. Numbers are kept exact.
\<close>

datatype float8 = Finite real | NaN

instantiation float8 :: "{one, minus, linorder}"
begin

definition one_float8 :: float8 where
  "one_float8 = Finite 1"

fun minus_float8 :: "float8 \<Rightarrow> float8 \<Rightarrow> float8" where
  "minus_float8 (Finite x) (Finite y) = Finite (x - y)"
| "minus_float8 NaN y = NaN"
| "minus_float8 (Finite x) NaN = NaN"

fun less_eq_float8 :: "float8 \<Rightarrow> float8 \<Rightarrow> bool" where
  "less_eq_float8 (Finite x) (Finite y) = (x \<le> y)"
| "less_eq_float8 x NaN = True"
| "less_eq_float8 NaN (Finite y) = False"

definition less_float8 :: "float8 \<Rightarrow> float8 \<Rightarrow> bool" where
  "less_float8 x y = (x \<le> y \<and> \<not> y \<le> x)"

instance
proof
  fix x y z :: float8
  show "(x < y) = (x \<le> y \<and> \<not> y \<le> x)"
    by (simp add: less_float8_def)
  show "x \<le> x"
    by (cases x) simp_all
  show "x \<le> y \<Longrightarrow> y \<le> z \<Longrightarrow> x \<le> z"
    by (cases x; cases y; cases z) simp_all
  show "x \<le> y \<Longrightarrow> y \<le> x \<Longrightarrow> x = y"
    by (cases x; cases y) simp_all
  show "x \<le> y \<or> y \<le> x"
    by (cases x; cases y) auto
qed

end

text \<open>
  Cosine distance, the meaning of \<^verbatim>\<open><=>\<close> under \<^verbatim>\<open>vector_cosine_ops\<close>: one minus the
  cosine of the angle between the two vectors, the inner product over the root of the
  product of the squared norms. Both operands have type \<^verbatim>\<open>VECTOR(1536)\<close>, hence equal
  dimension. When one of the vectors is the zero vector the quotient is zero over zero, and
  the distance is NaN.
\<close>

definition inner_product :: "real list \<Rightarrow> real list \<Rightarrow> real" where
  "inner_product a b = (\<Sum>(x, y) \<leftarrow> zip a b. x * y)"

definition cosine_distance :: "real list \<Rightarrow> real list \<Rightarrow> float8" where
  "cosine_distance a b =
     (if inner_product a a * inner_product b b = 0 then NaN
      else Finite (1 - inner_product a b / sqrt (inner_product a a * inner_product b b)))"

definition vector_1536 :: "real list \<Rightarrow> bool" where
  "vector_1536 v \<longleftrightarrow> length v = 1536"

definition nonzero :: "real list \<Rightarrow> bool" where
  "nonzero v \<longleftrightarrow> (\<exists>x \<in> set v. x \<noteq> 0)"

definition match_documents ::
    "document list \<Rightarrow> real list \<Rightarrow> float8 \<Rightarrow> int \<Rightarrow> sql_error + float8 match_row list" where
  "match_documents = match_documents_with cosine_distance"

section \<open>Rendering of the scholarship cards\<close>

text \<open>A rendered JSX tree: an element with its props and children, or a text node.\<close>

datatype element =
    Element (element_name: string) (element_props: "(string \<times> string) list")
            (element_children: "element list")
  | TextNode string

text \<open>
  \<^verbatim>\<open>{value && (<el/>)}\<close> for a value of type \<^verbatim>\<open>string | null\<close>: nothing is rendered for
  \<^verbatim>\<open>null\<close> and for the empty string.
\<close>

definition when_present :: "string option \<Rightarrow> (string \<Rightarrow> element) \<Rightarrow> element list" where
  "when_present value el =
     (case value of None \<Rightarrow> [] | Some v \<Rightarrow> if v = [] then [] else [el v])"

text \<open>
  \<^verbatim>\<open><Badge key={tag} variant="secondary" className="text-xs">{tag}</Badge>\<close>; the first
  block writes the key as \<^verbatim>\<open>String(tag)\<close>, which is \<^verbatim>\<open>tag\<close> for a string.
\<close>

definition tag_badge :: "string \<Rightarrow> element" where
  "tag_badge tag =
     Element ''Badge'' [(''key'', tag), (''variant'', ''secondary''), (''className'', ''text-xs'')]
       [TextNode tag]"

text \<open>
  \<^verbatim>\<open>
  <div className="flex flex-wrap gap-2">
    {(Array.isArray(scholarship.tags) ? scholarship.tags.slice(0, 4) : []).map((tag) => (...))}
  </div>
  \<close>
\<close>

definition tags_block_isArray :: "resource \<Rightarrow> element" where
  "tags_block_isArray scholarship =
     Element ''div'' [(''className'', ''flex flex-wrap gap-2'')]
       (map tag_badge (case tags scholarship of Some ts \<Rightarrow> take 4 ts | None \<Rightarrow> []))"

text \<open>
  \<^verbatim>\<open>
  <div className="flex flex-wrap gap-2">
    {scholarship.tags?.slice(0, 4).map((tag) => (...))}
  </div>
  \<close>
\<close>

definition tags_block_optional :: "resource \<Rightarrow> element" where
  "tags_block_optional scholarship =
     Element ''div'' [(''className'', ''flex flex-wrap gap-2'')]
       (case tags scholarship of Some ts \<Rightarrow> map tag_badge (take 4 ts) | None \<Rightarrow> [])"

text \<open>
  The children of \<^verbatim>\<open><CardContent className="space-y-4">\<close>, in source order: the deadline
  line, the two tag blocks, the apply button. \<open>toLocaleDateString\<close> stands for
  \<^verbatim>\<open>new Date(d).toLocaleDateString('en-US', {...})\<close>, which depends on the runtime.
\<close>

definition CardContent :: "(string \<Rightarrow> string) \<Rightarrow> resource \<Rightarrow> element list" where
  "CardContent toLocaleDateString scholarship =
     when_present (deadline scholarship)
       (\<lambda>d. Element ''div'' [(''className'', ''flex items-center gap-2 text-sm'')]
              [Element ''Calendar'' [(''className'', ''h-4 w-4 text-orange-600'')] [],
               Element ''span'' [(''className'', ''font-medium'')] [TextNode ''Deadline:''],
               Element ''span'' [] [TextNode (toLocaleDateString d)]])
     @ [tags_block_isArray scholarship, tags_block_optional scholarship]
     @ when_present (url scholarship)
         (\<lambda>u. Element ''Button'' [(''className'', ''w-full'')]
                [Element ''a'' [(''href'', u), (''target'', ''_blank''), (''rel'', ''noopener noreferrer'')]
                   [TextNode ''Apply Now '', Element ''ArrowRight'' [(''className'', ''ml-2 h-4 w-4'')] []]])"

text \<open>The children of \<^verbatim>\<open><CardHeader>\<close>.\<close>

definition CardHeader :: "resource \<Rightarrow> element list" where
  "CardHeader scholarship =
     [Element ''div'' [(''className'', ''flex justify-between items-start mb-3'')]
        (Element ''Badge'' [(''className'', ''bg-green-100 text-green-800 hover:bg-green-100'')]
           [TextNode (case metadata_level scholarship of JString l \<Rightarrow> l | _ \<Rightarrow> ''Scholarship'')]
         # when_present (amount scholarship)
             (\<lambda>a. Element ''Badge'' [(''variant'', ''outline''), (''className'', ''flex items-center gap-1'')]
                    [Element ''DollarSign'' [(''className'', ''h-3 w-3'')] [], TextNode a])),
      Element ''CardTitle'' [(''className'', ''text-xl'')] [TextNode (title scholarship)]]
     @ when_present (institution scholarship)
         (\<lambda>i. Element ''p'' [(''className'', ''text-sm text-gray-600 font-medium'')] [TextNode i])
     @ [Element ''CardDescription'' [(''className'', ''mt-2'')]
          (case description scholarship of None \<Rightarrow> [] | Some d \<Rightarrow> [TextNode d])]"

text \<open>\<^verbatim>\<open>function ScholarshipGrid({ scholarships })\<close>: one card per scholarship.\<close>

definition ScholarshipGrid :: "(string \<Rightarrow> string) \<Rightarrow> resource list \<Rightarrow> element" where
  "ScholarshipGrid toLocaleDateString scholarships =
     Element ''div'' [(''className'', ''grid md:grid-cols-2 gap-6'')]
       (map (\<lambda>scholarship.
               Element ''Card'' [(''key'', resource_id scholarship),
                                 (''className'', ''hover:shadow-lg transition'')]
                 [Element ''CardHeader'' [] (CardHeader scholarship),
                  Element ''CardContent'' [(''className'', ''space-y-4'')]
                    (CardContent toLocaleDateString scholarship)])
          scholarships)"

section \<open>Concrete rows\<close>

text \<open>
  The three sample rows of schema.sql. One \<^verbatim>\<open>INSERT\<close> statement writes them, so all
  three get the same \<^verbatim>\<open>created_at\<close> from \<^verbatim>\<open>DEFAULT NOW()\<close>.
\<close>

definition pearson :: resource where
  "pearson =
     \<lparr>resource_id = ''7d0c1a52-0000-4000-8000-000000000001'',
      title = ''Lester B. Pearson International Scholarship'',
      description = Some ''Full-ride scholarship for international students at University of Toronto covering tuition, books, incidental fees, and residence support.'',
      url = Some ''https://future.utoronto.ca/pearson/'',
      category = ''scholarship'',
      country = ''Canada'',
      institution = Some ''University of Toronto'',
      deadline = Some ''2026-01-15'',
      eligibility = None,
      amount = None,
      tags = Some [''full-tuition'', ''undergraduate'', ''high-achiever''],
      last_updated = 1763251200000000,
      created_at = 1763251200000000,
      metadata = None\<rparr>"

definition visa_guide :: resource where
  "visa_guide =
     \<lparr>resource_id = ''7d0c1a52-0000-4000-8000-000000000002'',
      title = ''Canada Student Visa Guide'',
      description = Some ''Complete guide to applying for Canadian study permit including required documents, processing times, and biometrics information.'',
      url = Some ''https://www.canada.ca/en/immigration-refugees-citizenship/services/study-canada.html'',
      category = ''visa'',
      country = ''Canada'',
      institution = Some ''IRCC'',
      deadline = None,
      eligibility = None,
      amount = None,
      tags = Some [''study-permit'', ''documentation'', ''official''],
      last_updated = 1763251200000000,
      created_at = 1763251200000000,
      metadata = None\<rparr>"

definition part_time_jobs :: resource where
  "part_time_jobs =
     \<lparr>resource_id = ''7d0c1a52-0000-4000-8000-000000000003'',
      title = ''Part-time Jobs for International Students'',
      description = Some ''International students can work up to 20 hours per week during academic sessions and full-time during breaks without a work permit.'',
      url = Some ''https://www.canada.ca/en/immigration-refugees-citizenship/services/study-canada/work.html'',
      category = ''job'',
      country = ''Canada'',
      institution = Some ''IRCC'',
      deadline = None,
      eligibility = None,
      amount = None,
      tags = Some [''part-time'', ''work-permit'', ''regulations''],
      last_updated = 1763251200000000,
      created_at = 1763251200000000,
      metadata = None\<rparr>"

text \<open>Two rows of seed_resources.sql: its first scholarship and its first university.\<close>

definition vanier :: resource where
  "vanier =
     \<lparr>resource_id = ''7d0c1a52-0000-4000-8000-000000000004'',
      title = ''Vanier Canada Graduate Scholarships (Vanier CGS)'',
      description = Some ''Prestigious doctoral scholarship recognizing academic excellence, research potential, and leadership. Covers all expenses for PhD studies at Canadian universities.'',
      url = Some ''https://vanier.gc.ca/en/home-accueil.html'',
      category = ''scholarship'',
      country = ''Canada'',
      institution = Some ''Government of Canada'',
      deadline = Some ''2025-10-30'',
      eligibility = Some ''Canadian citizens, permanent residents, and international students pursuing first doctoral degree. Must be nominated by Canadian institution.'',
      amount = Some ''$50,000 CAD per year'',
      tags = Some [''doctoral'', ''fully-funded'', ''government'', ''prestigious'', ''research''],
      last_updated = 1763337600000000,
      created_at = 1763337600000000,
      metadata = Some [(''duration'', JString ''3 years''),
                       (''total_awards'', JString ''166 annually''),
                       (''application_process'', JString ''Nomination through Canadian university, not direct application''),
                       (''source'', JString ''official''),
                       (''level'', JString ''Doctoral (PhD)''),
                       (''last_verified'', JString ''2025-11-16'')]\<rparr>"

definition uoft :: resource where
  "uoft =
     \<lparr>resource_id = ''7d0c1a52-0000-4000-8000-000000000005'',
      title = ''University of Toronto - International Student Programs'',
      description = Some ''Canada's #1 ranked university offering 700+ undergraduate and 200+ graduate programs. Comprehensive support through Centre for International Experience.'',
      url = Some ''https://www.utoronto.ca/'',
      category = ''university'',
      country = ''Canada'',
      institution = Some ''University of Toronto'',
      deadline = None,
      eligibility = None,
      amount = None,
      tags = Some [''top-ranked'', ''research-intensive'', ''diverse-programs''],
      last_updated = 1763337600000000,
      created_at = 1763337600000000,
      metadata = Some [(''ranking'', JString ''1st in Canada, Top 25 globally''),
                       (''international_students'', JString ''25,000+''),
                       (''popular_programs'', JArray [JString ''Computer Science'', JString ''Engineering'',
                                                      JString ''Business'', JString ''Life Sciences'']),
                       (''location'', JString ''Toronto, Ontario''),
                       (''tuition_range'', JString ''$45,000-$58,000 CAD per year''),
                       (''application_deadline'', JString ''2026-01-15''),
                       (''source'', JString ''official''),
                       (''last_verified'', JString ''2025-11-16'')]\<rparr>"

text \<open>A scholarship whose \<^verbatim>\<open>metadata.level\<close> is a sequence of strings.\<close>

definition two_levels :: resource where
  "two_levels = vanier\<lparr>tags := None,
                        metadata := Some [(''level'', JArray [JString ''Masters'', JString ''PhD''])]\<rparr>"

text \<open>The table after schema.sql, and after a further scholarship written at the same instant.\<close>

definition sample_store :: store where
  "sample_store =
     \<lparr>rows = [pearson, visa_guide, part_time_jobs], category_check = Some schema_categories\<rparr>"

definition pearson_twin :: resource where
  "pearson_twin = pearson\<lparr>resource_id := ''7d0c1a52-0000-4000-8000-000000000006'',
                          title := ''Lester B. Pearson International Scholarship (2027)''\<rparr>"

definition tied_store :: store where
  "tied_store = \<lparr>rows = [pearson, pearson_twin], category_check = Some schema_categories\<rparr>"


text \<open>Embeddings along the first axis of \<^verbatim>\<open>VECTOR(1536)\<close>, and documents holding them.\<close>

definition axis_vector :: "real \<Rightarrow> real list" where
  "axis_vector x = x # replicate 1535 0"

definition doc_along :: document where
  "doc_along = \<lparr>doc_id = 1, content = ''Study permit processing times'', doc_metadata = None,
                 embedding = Some (axis_vector 2)\<rparr>"

definition doc_against :: document where
  "doc_against = \<lparr>doc_id = 2, content = ''Co-op work permits'', doc_metadata = None,
                   embedding = Some (axis_vector (- 1))\<rparr>"

definition doc_unembedded :: document where
  "doc_unembedded = \<lparr>doc_id = 3, content = ''Housing near campus'', doc_metadata = None,
                      embedding = None\<rparr>"

text \<open>A document whose embedding is the zero vector of \<^verbatim>\<open>VECTOR(1536)\<close>.\<close>

definition doc_zero :: document where
  "doc_zero = \<lparr>doc_id = 4, content = ''Tuition payment plans'', doc_metadata = None,
                embedding = Some (axis_vector 0)\<rparr>"

section \<open>Properties of the tag/level filter\<close>

lemma string_includes_iff: "string_includes hay needle \<longleftrightarrow> (\<exists>p q. hay = p @ needle @ q)"
proof (induction hay)
  case Nil
  then show ?case by simp
next
  case (Cons c cs)
  show ?case
  proof
    assume "string_includes (c # cs) needle"
    then consider "prefix needle (c # cs)" | "string_includes cs needle" by auto
    then show "\<exists>p q. c # cs = p @ needle @ q"
    proof cases
      case 1
      then obtain q where "c # cs = needle @ q" by (auto simp: prefix_def)
      then have "c # cs = [] @ needle @ q" by simp
      then show ?thesis by blast
    next
      case 2
      with Cons.IH obtain p q where "cs = p @ needle @ q" by blast
      then have "c # cs = (c # p) @ needle @ q" by simp
      then show ?thesis by blast
    qed
  next
    assume "\<exists>p q. c # cs = p @ needle @ q"
    then obtain p q where pq: "c # cs = p @ needle @ q" by blast
    show "string_includes (c # cs) needle"
    proof (cases p)
      case Nil
      with pq have "prefix needle (c # cs)" by (simp add: prefix_def)
      then show ?thesis by simp
    next
      case (Cons a p')
      with pq have "cs = p' @ needle @ q" by simp
      with Cons.IH have "string_includes cs needle" by blast
      then show ?thesis by simp
    qed
  qed
qed

lemma fieldIncludes_tags_field:
  "fieldIncludes (tags_field s) needle \<longleftrightarrow> (case tags s of None \<Rightarrow> False | Some ts \<Rightarrow> needle \<in> set ts)"
  by (auto simp: tags_field_def split: option.splits)

lemma metadata_level_absent: "metadata s = None \<Longrightarrow> metadata_level s = JUndefined"
  by (simp add: metadata_level_def)

text \<open>
  Claim C4. The filter predicate of the scholarships page, for any resource and any needle,
  is decided by the shape of \<^verbatim>\<open>metadata.level\<close>: a string matches when the needle is a
  substring of it, a sequence when the needle is one of its elements, and every other shape
  (absent, null, boolean, number, object) never matches on the level side; the tags side
  matches when the needle is one of the tags. The predicate is a total function of the
  resource: no shape makes it fail.
\<close>

theorem C4_tag_or_level_filter_total:
  "(fieldIncludes (metadata_level s) needle \<or> fieldIncludes (tags_field s) needle) \<longleftrightarrow>
     (case metadata_level s of
        JString level \<Rightarrow> (\<exists>p q. level = p @ needle @ q)
      | JArray levels \<Rightarrow> JString needle \<in> set levels
      | _ \<Rightarrow> False)
     \<or> (case tags s of None \<Rightarrow> False | Some ts \<Rightarrow> needle \<in> set ts)"
  by (cases "metadata_level s")
     (simp_all add: fieldIncludes_tags_field string_includes_iff)

text \<open>
  Claim C4 at two rows: a level that is the sequence Masters, PhD matches the needle PhD; a
  row without metadata and without the tag does not match.
\<close>

theorem C4_tag_or_level_filter_witness:
  "(fieldIncludes (metadata_level two_levels) ''PhD'' \<or> fieldIncludes (tags_field two_levels) ''PhD'')
   \<and> metadata_level two_levels = JArray [JString ''Masters'', JString ''PhD'']
   \<and> \<not> (fieldIncludes (metadata_level pearson) ''doctoral'' \<or> fieldIncludes (tags_field pearson) ''doctoral'')
   \<and> metadata_level pearson = JUndefined"
  using C4_tag_or_level_filter_total [of two_levels "''PhD''"]
        C4_tag_or_level_filter_total [of pearson "''doctoral''"]
  by (simp add: metadata_level_def two_levels_def pearson_def vanier_def)

lemma undergrad_graduate_tabs:
  "undergrad [pearson, vanier, two_levels] = [pearson]
   \<and> graduate [pearson, vanier, two_levels] = [vanier, two_levels]"
  by (simp add: undergrad_def graduate_def metadata_level_def tags_field_def
        two_levels_def pearson_def vanier_def)

section \<open>Properties of descending order\<close>


lemma set_order_desc: "set (order_desc key xs) = set xs"
  by (simp add: order_desc_def)

lemma sorted_order_desc: "sorted_wrt (\<lambda>a b. key b \<le> key a) (order_desc key xs)"
proof -
  have "sorted_wrt (\<lambda>a b. key a \<le> key b) (sort_key key (rev xs))"
    using sorted_sort_key [of key "rev xs"] by (simp add: sorted_wrt_map)
  then show ?thesis
    by (simp add: order_desc_def sorted_wrt_rev)
qed

lemma order_desc_single: "order_desc key [x] = [x]"
  by (simp add: order_desc_def)

lemma order_desc_pair:
  "order_desc key [x, y] = (if key x < key y then [y, x] else [x, y])"
  by (auto simp: order_desc_def)

lemma sorted_wrt_take_prefix: "sorted_wrt P xs \<Longrightarrow> sorted_wrt P (take n xs)"
proof -
  assume "sorted_wrt P xs"
  then have "sorted_wrt P (take n xs @ drop n xs)" by simp
  then show ?thesis unfolding sorted_wrt_append by blast
qed

text \<open>
  A list that already is in descending order comes back unchanged: every ordering of the
  matching rows that \<^verbatim>\<open>ORDER BY key DESC\<close> admits is the answer to some scan.
\<close>

lemma order_desc_sorted:
  assumes "sorted_wrt (\<lambda>a b. key b \<le> key a) xs"
  shows "order_desc key xs = xs"
proof -
  from assms have "sorted_wrt (\<lambda>a b. key a \<le> key b) (rev xs)"
    by (simp add: sorted_wrt_rev)
  then have "sorted (map key (rev xs))"
    by (simp add: sorted_wrt_map)
  then have "sort_key key (rev xs) = rev xs"
    by (rule sort_key_id_if_sorted)
  then show ?thesis by (simp add: order_desc_def)
qed



section \<open>Properties of the listing queries\<close>

lemma select_resources_Unavailable:
  "data (select_resources (Unavailable e) eq_category limit) = None
   \<and> error (select_resources (Unavailable e) eq_category limit) = Some e"
  by (simp add: select_resources_def)

lemma select_resources_Available:
  "error (select_resources (Available scan) eq_category limit) = None
   \<and> (\<exists>rs. data (select_resources (Available scan) eq_category limit) = Some rs)"
  by (simp add: select_resources_def Let_def)

lemma select_resources_category:
  "select_resources access (Some c) limit = ResponseSuccess rs \<Longrightarrow> r \<in> set rs \<Longrightarrow> category r = c"
  by (auto simp: select_resources_def Let_def set_order_desc
           split: store_access.splits option.splits dest: in_set_takeD)

lemma select_resources_sorted:
  "select_resources access eq_category limit = ResponseSuccess rs
     \<Longrightarrow> sorted_wrt (\<lambda>a b. created_at b \<le> created_at a) rs"
  by (auto simp: select_resources_def Let_def sorted_order_desc sorted_wrt_take_prefix
           split: store_access.splits option.splits)



text \<open>
  Claim C1, at a store that cannot be reached. The scholarships page and the home page
  write the error to the console and show nothing; the jobs page and the visa page show
  nothing and leave the console empty: they read only \<^verbatim>\<open>data\<close> from the response, and the
  error is dropped without a trace.
\<close>

theorem C1_jobs_page_drops_error:
  "fetchJobResources (Unavailable ''TypeError: fetch failed'') initial_page
     = \<lparr>resources = [], console = []\<rparr>
   \<and> fetchVisaResources (Unavailable ''TypeError: fetch failed'') initial_page
     = \<lparr>resources = [], console = []\<rparr>
   \<and> fetchScholarships (Unavailable ''TypeError: fetch failed'') initial_page
     = \<lparr>resources = [], console = [''Error fetching scholarships: TypeError: fetch failed'']\<rparr>
   \<and> getRecentResources (Unavailable ''TypeError: fetch failed'') []
     = ([], [''Error fetching resources: TypeError: fetch failed''])"
  by (simp add: fetchJobResources_def fetchVisaResources_def fetchScholarships_def
        getRecentResources_def select_resources_def initial_page_def)

text \<open>
  Claim C5. Whatever the store answers, a listing query for category \<open>c\<close> returns only
  rows of category \<open>c\<close>, with or without a limit; and what the scholarships, jobs and visa
  pages show after their fetch are only scholarship, job and visa rows.
\<close>

theorem C5_listing_only_requested_category:
  "(\<forall>rs. select_resources access (Some c) limit = ResponseSuccess rs
          \<longrightarrow> (\<forall>r \<in> set rs. category r = c))
   \<and> (\<forall>r \<in> set (resources (fetchScholarships access initial_page)). category r = ''scholarship'')
   \<and> (\<forall>r \<in> set (resources (fetchJobResources access initial_page)). category r = ''job'')
   \<and> (\<forall>r \<in> set (resources (fetchVisaResources access initial_page)). category r = ''visa'')"
proof (intro conjI)
  show "\<forall>rs. select_resources access (Some c) limit = ResponseSuccess rs
          \<longrightarrow> (\<forall>r \<in> set rs. category r = c)"
    using select_resources_category by blast
  show "\<forall>r \<in> set (resources (fetchScholarships access initial_page)). category r = ''scholarship''"
    by (auto simp: fetchScholarships_def initial_page_def
             split: postgrest_response.splits dest: select_resources_category)
  show "\<forall>r \<in> set (resources (fetchJobResources access initial_page)). category r = ''job''"
    by (cases "select_resources access (Some ''job'') None")
       (auto simp: fetchJobResources_def initial_page_def dest: select_resources_category)
  show "\<forall>r \<in> set (resources (fetchVisaResources access initial_page)). category r = ''visa''"
    by (cases "select_resources access (Some ''visa'') None")
       (auto simp: fetchVisaResources_def initial_page_def dest: select_resources_category)
qed

text \<open>
  Claim C5 on the table of schema.sql, scanned in some order: the scholarship listing is the
  one scholarship row and the jobs page shows the one job row.
\<close>

theorem C5_listing_only_requested_category_witness:
  "scans sample_store [part_time_jobs, visa_guide, pearson]
   \<and> select_resources (Available [part_time_jobs, visa_guide, pearson]) (Some ''scholarship'') None
       = ResponseSuccess [pearson]
   \<and> resources (fetchJobResources (Available [part_time_jobs, visa_guide, pearson]) initial_page)
       = [part_time_jobs]
   \<and> category pearson = ''scholarship'' \<and> category part_time_jobs = ''job''"
  using C5_listing_only_requested_category
          [of "Available [part_time_jobs, visa_guide, pearson]" "''scholarship''" None]
  by (simp add: scans_def sample_store_def select_resources_def fetchJobResources_def
        order_desc_single pearson_def visa_guide_def part_time_jobs_def)

text \<open>
  Claim C6, as stated, fails on rows written at the same instant. The table holds
  \<open>pearson\<close> before \<open>pearson_twin\<close>, both with one \<^verbatim>\<open>created_at\<close>; the query orders by
  \<^verbatim>\<open>created_at\<close> alone, so a store that meets the twin first answers with the twin first,
  while insertion order puts \<open>pearson\<close> first.
\<close>

theorem C6_ties_not_in_insertion_order:
  "rows tied_store = [pearson, pearson_twin]
   \<and> created_at pearson = created_at pearson_twin
   \<and> scans tied_store [pearson_twin, pearson]
   \<and> select_resources (Available [pearson_twin, pearson]) (Some ''scholarship'') None
       = ResponseSuccess [pearson_twin, pearson]
   \<and> listing_in_insertion_order tied_store ''scholarship'' = [pearson, pearson_twin]
   \<and> [pearson_twin, pearson] \<noteq> listing_in_insertion_order tied_store ''scholarship''"
  by (simp add: tied_store_def scans_def select_resources_def listing_in_insertion_order_def
        order_desc_pair pearson_twin_def pearson_def)

text \<open>
  Claim C6, amended. Every sequence a listing query returns, with or without a category and
  with or without a limit, is non-increasing in \<^verbatim>\<open>created_at\<close> from each element to every
  later one; so are the lists the scholarships, jobs and visa pages show and the list the
  home page gets. Nothing is promised about the order of rows with equal \<^verbatim>\<open>created_at\<close>.
\<close>

theorem C6_listing_newest_first:
  "(\<forall>rs. select_resources access eq_category limit = ResponseSuccess rs
          \<longrightarrow> sorted_wrt (\<lambda>a b. created_at b \<le> created_at a) rs)
   \<and> sorted_wrt (\<lambda>a b. created_at b \<le> created_at a) (resources (fetchScholarships access initial_page))
   \<and> sorted_wrt (\<lambda>a b. created_at b \<le> created_at a) (resources (fetchJobResources access initial_page))
   \<and> sorted_wrt (\<lambda>a b. created_at b \<le> created_at a) (resources (fetchVisaResources access initial_page))
   \<and> sorted_wrt (\<lambda>a b. created_at b \<le> created_at a) (fst (getRecentResources access out))"
proof (intro conjI)
  show "\<forall>rs. select_resources access eq_category limit = ResponseSuccess rs
          \<longrightarrow> sorted_wrt (\<lambda>a b. created_at b \<le> created_at a) rs"
    using select_resources_sorted by blast
  show "sorted_wrt (\<lambda>a b. created_at b \<le> created_at a) (resources (fetchScholarships access initial_page))"
    by (auto simp: fetchScholarships_def initial_page_def
             split: postgrest_response.splits dest: select_resources_sorted)
  show "sorted_wrt (\<lambda>a b. created_at b \<le> created_at a) (resources (fetchJobResources access initial_page))"
    by (cases "select_resources access (Some ''job'') None")
       (auto simp: fetchJobResources_def dest: select_resources_sorted)
  show "sorted_wrt (\<lambda>a b. created_at b \<le> created_at a) (resources (fetchVisaResources access initial_page))"
    by (cases "select_resources access (Some ''visa'') None")
       (auto simp: fetchVisaResources_def dest: select_resources_sorted)
  show "sorted_wrt (\<lambda>a b. created_at b \<le> created_at a) (fst (getRecentResources access out))"
    by (auto simp: getRecentResources_def
             split: postgrest_response.splits dest: select_resources_sorted)
qed

text \<open>
  Claim C6, amended, on three rows with a limit of two: the two newer rows come back, the
  older one is cut off.
\<close>

theorem C6_listing_newest_first_witness:
  "select_resources (Available [pearson, vanier, uoft]) None (Some 2)
     = ResponseSuccess [vanier, uoft]
   \<and> created_at uoft \<le> created_at vanier \<and> created_at pearson < created_at uoft"
  using C6_listing_newest_first [of "Available [pearson, vanier, uoft]" None "Some 2"]
  by (simp add: select_resources_def order_desc_def pearson_def vanier_def uoft_def)



section \<open>Properties of the category constraint\<close>

lemma schema_subset_seed: "set schema_categories \<subseteq> set seed_categories"
  by (simp add: schema_categories_def seed_categories_def)

text \<open>
  In every reachable state the constraint is one of the two enumerations of the scripts, and
  every stored row passes it.
\<close>

lemma reachable_invariant:
  "reachable st \<Longrightarrow>
     (category_check st = Some schema_categories \<or> category_check st = Some seed_categories)
     \<and> (\<forall>r \<in> set (rows st). check_passes (category_check st) (category r))"
proof (induction rule: reachable.induct)
  case created
  show ?case by (simp add: create_resources_table_def)
next
  case (inserted st r st')
  then show ?case
    by (auto simp: insert_resource_def split: if_splits)
next
  case (updated st i c st')
  then show ?case
    by (auto simp: update_category_def split: if_splits)
next
  case (seeded st st')
  then show ?case
    by (auto simp: seed_step1_def add_category_check_def drop_category_check_def check_passes_def
             split: if_splits)
qed

lemma reachable_rows_in_seed:
  assumes "reachable st" and "r \<in> set (rows st)"
  shows "category r \<in> set seed_categories"
proof -
  from reachable_invariant [OF assms(1)] assms(2)
  have chk: "category_check st = Some schema_categories \<or> category_check st = Some seed_categories"
    and pass: "check_passes (category_check st) (category r)" by auto
  from chk pass show ?thesis
    using schema_subset_seed by (auto simp: check_passes_def)
qed

lemma insert_resource_accepts:
  "(\<exists>st'. insert_resource st r = Inr st') \<longleftrightarrow> check_passes (category_check st) (category r)"
  by (simp add: insert_resource_def)

lemma update_category_accepts:
  "\<exists>r \<in> set (rows st). resource_id r = i \<Longrightarrow>
     (\<exists>st'. update_category st i c = Inr st') \<longleftrightarrow> check_passes (category_check st) c"
  by (auto simp: update_category_def)

lemma seed_step1_succeeds:
  assumes "reachable st"
  shows "seed_step1 st = Inr (st\<lparr>category_check := Some seed_categories\<rparr>)"
  using reachable_rows_in_seed [OF assms]
  by (simp add: seed_step1_def add_category_check_def drop_category_check_def)

lemma reachable_sample_store: "reachable sample_store"
proof -
  let ?s1 = "\<lparr>rows = [pearson], category_check = Some schema_categories\<rparr>"
  let ?s2 = "\<lparr>rows = [pearson, visa_guide], category_check = Some schema_categories\<rparr>"
  have "reachable ?s1"
    by (rule reachable.inserted [OF reachable.created, of pearson])
       (simp add: insert_resource_def check_passes_def create_resources_table_def
          schema_categories_def pearson_def)
  then have "reachable ?s2"
    by (rule reachable.inserted [of _ visa_guide])
       (simp add: insert_resource_def check_passes_def schema_categories_def visa_guide_def)
  then show ?thesis
    unfolding sample_store_def
    by (rule reachable.inserted [of _ part_time_jobs])
       (simp add: insert_resource_def check_passes_def schema_categories_def part_time_jobs_def)
qed

lemma reachable_seeded_sample_store:
  "reachable (sample_store\<lparr>category_check := Some seed_categories\<rparr>)"
  by (rule reachable.seeded [OF reachable_sample_store])
     (rule seed_step1_succeeds [OF reachable_sample_store])

text \<open>
  Claim C7, as stated, fails on the table as schema.sql creates it: \<^verbatim>\<open>university\<close> is one
  of the six values of the claim, and a write of it is rejected, because the constraint of
  schema.sql lists five values.
\<close>

theorem C7_university_rejected_before_seed:
  "category uoft = ''university''
   \<and> category uoft \<in> set seed_categories
   \<and> insert_resource create_resources_table uoft = Inl CheckViolation"
  by (simp add: insert_resource_def check_passes_def create_resources_table_def uoft_def
        seed_categories_def schema_categories_def)

text \<open>
  Claim C7, amended. In every state the scripts and later writes can reach: every stored
  category is one of scholarship, visa, job, accommodation, general, university; the
  constraint in force is the five-valued one of schema.sql or the six-valued one of the seed
  script; once the seed script's first step has run, an insert or an update of a category is
  accepted exactly when the value is one of the six; before it, exactly when the value is
  one of the five of schema.sql; and the seed script's first step succeeds and leaves the
  six-valued constraint in force.
\<close>

theorem C7_category_checked_at_write_time:
  assumes "reachable st"
  shows "(\<forall>r \<in> set (rows st). category r \<in> set seed_categories)
   \<and> (category_check st = Some schema_categories \<or> category_check st = Some seed_categories)
   \<and> (category_check st = Some seed_categories \<longrightarrow>
        (\<forall>r. (\<exists>st'. insert_resource st r = Inr st') \<longleftrightarrow> category r \<in> set seed_categories)
        \<and> (\<forall>i c. (\<exists>r \<in> set (rows st). resource_id r = i) \<longrightarrow>
              ((\<exists>st'. update_category st i c = Inr st') \<longleftrightarrow> c \<in> set seed_categories)))
   \<and> (category_check st = Some schema_categories \<longrightarrow>
        (\<forall>r. (\<exists>st'. insert_resource st r = Inr st') \<longleftrightarrow> category r \<in> set schema_categories)
        \<and> (\<forall>i c. (\<exists>r \<in> set (rows st). resource_id r = i) \<longrightarrow>
              ((\<exists>st'. update_category st i c = Inr st') \<longleftrightarrow> c \<in> set schema_categories)))
   \<and> seed_step1 st = Inr (st\<lparr>category_check := Some seed_categories\<rparr>)"
proof (intro conjI)
  show "\<forall>r \<in> set (rows st). category r \<in> set seed_categories"
    using reachable_rows_in_seed [OF assms] by blast
  show "category_check st = Some schema_categories \<or> category_check st = Some seed_categories"
    using reachable_invariant [OF assms] by blast
  show "category_check st = Some seed_categories \<longrightarrow>
        (\<forall>r. (\<exists>st'. insert_resource st r = Inr st') \<longleftrightarrow> category r \<in> set seed_categories)
        \<and> (\<forall>i c. (\<exists>r \<in> set (rows st). resource_id r = i) \<longrightarrow>
              ((\<exists>st'. update_category st i c = Inr st') \<longleftrightarrow> c \<in> set seed_categories))"
    by (simp add: insert_resource_accepts update_category_accepts check_passes_def)
  show "category_check st = Some schema_categories \<longrightarrow>
        (\<forall>r. (\<exists>st'. insert_resource st r = Inr st') \<longleftrightarrow> category r \<in> set schema_categories)
        \<and> (\<forall>i c. (\<exists>r \<in> set (rows st). resource_id r = i) \<longrightarrow>
              ((\<exists>st'. update_category st i c = Inr st') \<longleftrightarrow> c \<in> set schema_categories))"
    by (simp add: insert_resource_accepts update_category_accepts check_passes_def)
  show "seed_step1 st = Inr (st\<lparr>category_check := Some seed_categories\<rparr>)"
    by (rule seed_step1_succeeds [OF assms])
qed

text \<open>
  Claim C7, amended, on the table of schema.sql before and after the seed script's first
  step: before, a scholarship is accepted and a university rejected, as an insert and as an
  update of a stored row; after, the university is accepted and a category outside the six
  is rejected.
\<close>

theorem C7_category_checked_at_write_time_witness:
  "reachable sample_store
   \<and> category_check sample_store = Some schema_categories
   \<and> (\<exists>st'. insert_resource sample_store vanier = Inr st')
   \<and> \<not> (\<exists>st'. insert_resource sample_store uoft = Inr st')
   \<and> reachable (sample_store\<lparr>category_check := Some seed_categories\<rparr>)
   \<and> (\<exists>st'. insert_resource (sample_store\<lparr>category_check := Some seed_categories\<rparr>) uoft = Inr st')
   \<and> \<not> (\<exists>st'. insert_resource (sample_store\<lparr>category_check := Some seed_categories\<rparr>)
                 (uoft\<lparr>category := ''college''\<rparr>) = Inr st')
   \<and> resource_id pearson = ''7d0c1a52-0000-4000-8000-000000000001''
   \<and> \<not> (\<exists>st'. update_category sample_store ''7d0c1a52-0000-4000-8000-000000000001''
                 ''university'' = Inr st')
   \<and> (\<exists>st'. update_category (sample_store\<lparr>category_check := Some seed_categories\<rparr>)
               ''7d0c1a52-0000-4000-8000-000000000001'' ''university'' = Inr st')"
  using C7_category_checked_at_write_time [OF reachable_sample_store]
        C7_category_checked_at_write_time [OF reachable_seeded_sample_store]
        reachable_sample_store reachable_seeded_sample_store
  by (simp add: sample_store_def vanier_def uoft_def pearson_def
        schema_categories_def seed_categories_def)

text \<open>
  Claim C10, at the first university row of the seed script. After the script's first step
  the store accepts the row, whose category is \<^verbatim>\<open>university\<close>; the category union of the
  client's \<^verbatim>\<open>Resource\<close> type has no such member.
\<close>

theorem C10_university_not_in_client_type:
  "seed_step1 create_resources_table = Inr \<lparr>rows = [], category_check = Some seed_categories\<rparr>
   \<and> insert_resource \<lparr>rows = [], category_check = Some seed_categories\<rparr> uoft
       = Inr \<lparr>rows = [uoft], category_check = Some seed_categories\<rparr>
   \<and> category uoft = ''university''
   \<and> ''university'' \<in> set seed_categories
   \<and> ''university'' \<notin> set Resource_category_union"
  by (simp add: seed_step1_def add_category_check_def drop_category_check_def
        create_resources_table_def insert_resource_def check_passes_def uoft_def
        seed_categories_def Resource_category_union_def)

section \<open>Properties of the similarity query\<close>

lemma set_map_filter: "set (List.map_filter f xs) = {y. \<exists>x \<in> set xs. f x = Some y}"
  by (induction xs) (auto split: option.splits)

lemma scored_Some:
  "scored distance q d = Some r \<longleftrightarrow>
     (\<exists>e. embedding d = Some e \<and>
          r = \<lparr>match_id = doc_id d, match_content = content d, match_metadata = doc_metadata d,
               similarity = 1 - distance e q\<rparr>)"
  by (auto simp: scored_def)

lemma match_documents_with_result:
  assumes "0 \<le> match_count"
  shows "match_documents_with distance documents q t match_count =
     Inr (take (nat match_count)
            (order_desc similarity
               (filter (\<lambda>r. similarity r > t) (List.map_filter (scored distance q) documents))))"
  using assms by (simp add: match_documents_with_def)

lemma match_documents_with_negative:
  "match_count < 0 \<Longrightarrow> match_documents_with distance documents q t match_count = Inl NegativeLimit"
  by (simp add: match_documents_with_def)

lemma match_documents_with_member:
  assumes "match_documents_with distance documents q t match_count = Inr matches"
    and "r \<in> set matches"
  shows "t < similarity r \<and> (\<exists>d \<in> set documents. scored distance q d = Some r)"
proof -
  let ?qualifying = "filter (\<lambda>r. similarity r > t) (List.map_filter (scored distance q) documents)"
  from assms(1) have "matches = take (nat match_count) (order_desc similarity ?qualifying)"
    by (auto simp: match_documents_with_def split: if_splits)
  with assms(2) have "r \<in> set (order_desc similarity ?qualifying)"
    by (auto dest: in_set_takeD)
  then have "r \<in> set ?qualifying"
    by (simp only: set_order_desc)
  then show ?thesis
    by (auto simp: set_map_filter)
qed

text \<open>
  Claim C2. For a count that is not negative the query returns rows, whatever the distance
  operator computes: at most \<open>match_count\<close> of them, each scored from a stored document and
  with a similarity strictly above the threshold, in order of similarity from the highest
  down; and none at all when no stored document scores above the threshold.
\<close>

theorem C2_match_documents_top_rows:
  assumes "0 \<le> match_count"
  shows "\<exists>matches. match_documents_with distance documents q t match_count = Inr matches
     \<and> length matches \<le> nat match_count
     \<and> (\<forall>r \<in> set matches. t < similarity r \<and> (\<exists>d \<in> set documents. scored distance q d = Some r))
     \<and> sorted_wrt (\<lambda>a b. similarity b \<le> similarity a) matches
     \<and> ((\<forall>d \<in> set documents. \<forall>e. embedding d = Some e \<longrightarrow> \<not> t < 1 - distance e q)
          \<longrightarrow> matches = [])"
proof -
  define qualifying where
    "qualifying = filter (\<lambda>r. similarity r > t) (List.map_filter (scored distance q) documents)"
  define matches where "matches = take (nat match_count) (order_desc similarity qualifying)"
  have res: "match_documents_with distance documents q t match_count = Inr matches"
    unfolding matches_def qualifying_def by (rule match_documents_with_result [OF assms])
  have len: "length matches \<le> nat match_count"
    by (simp add: matches_def)
  have sub: "set matches \<subseteq> set qualifying"
    unfolding matches_def using set_take_subset [of "nat match_count" "order_desc similarity qualifying"]
    by (simp add: set_order_desc)
  have mem: "\<forall>r \<in> set matches. t < similarity r \<and> (\<exists>d \<in> set documents. scored distance q d = Some r)"
    using match_documents_with_member [OF res] by blast
  have srt: "sorted_wrt (\<lambda>a b. similarity b \<le> similarity a) matches"
    unfolding matches_def by (intro sorted_wrt_take_prefix sorted_order_desc)
  have emp: "matches = []"
    if none: "\<forall>d \<in> set documents. \<forall>e. embedding d = Some e \<longrightarrow> \<not> t < 1 - distance e q"
  proof -
    have "set qualifying = {}"
      using none by (auto simp: qualifying_def set_map_filter scored_Some)
    with sub show ?thesis by simp
  qed
  from res len mem srt emp show ?thesis by blast
qed

subsection \<open>Cosine distance\<close>

lemma inner_product_Nil [simp]: "inner_product [] b = 0" "inner_product a [] = 0"
  by (simp_all add: inner_product_def)

lemma inner_product_Cons [simp]:
  "inner_product (x # xs) (y # ys) = x * y + inner_product xs ys"
  by (simp add: inner_product_def)

lemma inner_product_self_nonneg: "0 \<le> inner_product a a"
  by (induction a) simp_all

lemma inner_product_replicate_zero [simp]:
  "inner_product (replicate n 0) (replicate m 0) = 0"
  by (simp add: inner_product_def sum_list_replicate)

lemma inner_product_axis [simp]: "inner_product (axis_vector x) (axis_vector y) = x * y"
  by (simp add: axis_vector_def)

lemma less_float8_simps [simp]:
  "Finite x < Finite y \<longleftrightarrow> x < y" "Finite x < NaN" "\<not> NaN < z"
  by (cases z, auto simp: less_float8_def)

lemma one_minus_float8 [simp]: "1 - Finite x = Finite (1 - x)" "1 - NaN = NaN"
  by (simp_all add: one_float8_def)

lemma inner_product_self_zero_iff: "inner_product v v = 0 \<longleftrightarrow> \<not> nonzero v"
proof (induction v)
  case Nil
  show ?case by (simp add: nonzero_def)
next
  case (Cons x xs)
  have "x * x + inner_product xs xs = 0 \<longleftrightarrow> x * x = 0 \<and> inner_product xs xs = 0"
    by (rule add_nonneg_eq_0_iff) (simp_all add: inner_product_self_nonneg)
  with Cons show ?case by (auto simp: nonzero_def)
qed

lemma cosine_distance_NaN_iff:
  "cosine_distance a b = NaN \<longleftrightarrow> \<not> nonzero a \<or> \<not> nonzero b"
  by (simp add: cosine_distance_def inner_product_self_zero_iff)

lemma cosine_distance_axis:
  "x \<noteq> 0 \<Longrightarrow> y \<noteq> 0 \<Longrightarrow>
     cosine_distance (axis_vector x) (axis_vector y) = Finite (1 - x * y / (\<bar>x\<bar> * \<bar>y\<bar>))"
  by (simp add: cosine_distance_def real_sqrt_mult)

lemma cosine_distance_axis_zero:
  "cosine_distance (axis_vector 0) (axis_vector y) = NaN"
  by (simp add: cosine_distance_def)

lemma vector_1536_axis: "vector_1536 (axis_vector x)"
  by (simp add: vector_1536_def axis_vector_def)

lemma nonzero_axis: "x \<noteq> 0 \<Longrightarrow> nonzero (axis_vector x)"
  by (simp add: nonzero_def axis_vector_def)

text \<open>The mixed term of a squared sum, bounded by the two squares it sits between.\<close>

lemma cross_term_bound:
  fixes x y d A B :: real
  assumes "d\<^sup>2 \<le> A * B" and "0 \<le> A" and "0 \<le> B"
  shows "2 * x * y * d \<le> x\<^sup>2 * B + y\<^sup>2 * A"
proof -
  define u where "u = \<bar>x\<bar> * sqrt B"
  define v where "v = \<bar>y\<bar> * sqrt A"
  have "\<bar>d\<bar> \<le> sqrt (A * B)"
    using assms(1) by (simp add: real_le_rsqrt)
  then have d: "\<bar>d\<bar> \<le> sqrt A * sqrt B"
    by (simp add: real_sqrt_mult)
  have u2: "u\<^sup>2 = x\<^sup>2 * B" using assms(3) by (simp add: u_def power_mult_distrib)
  have v2: "v\<^sup>2 = y\<^sup>2 * A" using assms(2) by (simp add: v_def power_mult_distrib)
  have "2 * x * y * d \<le> \<bar>2 * x * y * d\<bar>" by simp
  also have "\<dots> = 2 * (\<bar>x\<bar> * \<bar>y\<bar>) * \<bar>d\<bar>" by (simp add: abs_mult)
  also have "\<dots> \<le> 2 * (\<bar>x\<bar> * \<bar>y\<bar>) * (sqrt A * sqrt B)"
    using d by (intro mult_left_mono) simp_all
  also have "\<dots> = 2 * u * v" by (simp add: u_def v_def)
  also have "\<dots> \<le> u\<^sup>2 + v\<^sup>2" by (rule sum_squares_bound)
  finally show ?thesis by (simp add: u2 v2)
qed

lemma inner_product_squared_bound:
  "(inner_product a b)\<^sup>2 \<le> inner_product a a * inner_product b b"
proof (induction a arbitrary: b)
  case Nil
  show ?case by simp
next
  case (Cons x xs)
  show ?case
  proof (cases b)
    case Nil
    then show ?thesis by simp
  next
    case (Cons y ys)
    define d where "d = inner_product xs ys"
    define A where "A = inner_product xs xs"
    define B where "B = inner_product ys ys"
    have ih: "d\<^sup>2 \<le> A * B" unfolding d_def A_def B_def by (rule Cons.IH)
    have A: "0 \<le> A" and B: "0 \<le> B"
      unfolding A_def B_def by (rule inner_product_self_nonneg)+
    have "(x * y + d)\<^sup>2 = x\<^sup>2 * y\<^sup>2 + 2 * x * y * d + d\<^sup>2"
      by (simp add: power2_sum power_mult_distrib)
    also have "\<dots> \<le> x\<^sup>2 * y\<^sup>2 + (x\<^sup>2 * B + y\<^sup>2 * A) + A * B"
      using cross_term_bound [OF ih A B, of x y] ih by linarith
    also have "\<dots> = (x * x + A) * (y * y + B)"
      by (simp add: algebra_simps power2_eq_square)
    finally show ?thesis
      using Cons by (simp add: d_def A_def B_def)
  qed
qed

lemma cosine_bounds:
  "\<bar>inner_product a b / sqrt (inner_product a a * inner_product b b)\<bar> \<le> 1"
proof -
  define N where "N = sqrt (inner_product a a * inner_product b b)"
  define c where "c = inner_product a b"
  have N0: "0 \<le> N"
    unfolding N_def using inner_product_self_nonneg by simp
  have le: "\<bar>c\<bar> \<le> N"
    unfolding N_def c_def using inner_product_squared_bound [of a b] by (simp add: real_le_rsqrt)
  have "\<bar>c / N\<bar> \<le> 1"
  proof (cases "N = 0")
    case True
    then show ?thesis by simp
  next
    case False
    with N0 have pos: "0 < N" by simp
    have "\<bar>c / N\<bar> = \<bar>c\<bar> / N" using pos by simp
    also have "\<dots> \<le> 1" using le pos by simp
    finally show ?thesis .
  qed
  then show ?thesis unfolding N_def c_def .
qed

lemma similarity_number:
  assumes "nonzero a" and "nonzero b"
  shows "\<exists>s. 1 - cosine_distance a b = Finite s \<and> - 1 \<le> s \<and> s \<le> 1"
proof -
  define c where "c = inner_product a b / sqrt (inner_product a a * inner_product b b)"
  have "\<bar>c\<bar> \<le> 1" unfolding c_def by (rule cosine_bounds)
  then have "- 1 \<le> c \<and> c \<le> 1" by linarith
  moreover have "1 - cosine_distance a b = Finite c"
    using assms by (simp add: cosine_distance_def c_def inner_product_self_zero_iff)
  ultimately show ?thesis by blast
qed

lemma similarity_NaN_iff:
  "1 - cosine_distance a b = NaN \<longleftrightarrow> \<not> nonzero a \<or> \<not> nonzero b"
  by (cases "cosine_distance a b") (use cosine_distance_NaN_iff [of a b] in auto)

text \<open>
  Claim C2 on three stored documents, one of them without an embedding: with threshold 0.8
  and count 5 only the document along the query comes back; with threshold -2 and count 1
  the limit cuts the second row off; when no document qualifies the result is empty.
\<close>

theorem C2_match_documents_top_rows_witness:
  "(0::int) \<le> 5
   \<and> match_documents [doc_against, doc_unembedded, doc_along] (axis_vector 1) (Finite (4 / 5)) 5
     = Inr [\<lparr>match_id = 1, match_content = ''Study permit processing times'', match_metadata = None,
             similarity = Finite 1\<rparr>]
   \<and> match_documents [doc_against, doc_unembedded, doc_along] (axis_vector 1) (Finite (- 2)) 1
     = Inr [\<lparr>match_id = 1, match_content = ''Study permit processing times'', match_metadata = None,
             similarity = Finite 1\<rparr>]
   \<and> match_documents [doc_against, doc_unembedded] (axis_vector 1) (Finite (4 / 5)) 5 = Inr []"
  using C2_match_documents_top_rows
          [of 5 cosine_distance "[doc_against, doc_unembedded, doc_along]" "axis_vector 1"
              "Finite (4 / 5)"]
  by (simp add: match_documents_def match_documents_with_def scored_def
       doc_along_def doc_against_def doc_unembedded_def cosine_distance_axis order_desc_def)

text \<open>
  Claim C3, as stated, fails in two ways. A stored embedding that points away from the
  query has cosine distance 2 and similarity -1, and with a threshold below -1 the row is
  returned with that score. A stored embedding that is the zero vector has distance NaN and
  similarity NaN, which the store orders above every threshold, so the row is returned with
  a score that is no number at all. Neither score lies in the interval from 0 to 1.
\<close>

theorem C3_score_outside_unit_interval:
  "vector_1536 (axis_vector 1)
   \<and> embedding doc_against = Some (axis_vector (- 1))
   \<and> vector_1536 (axis_vector (- 1))
   \<and> match_documents [doc_against] (axis_vector 1) (Finite (- 2)) 5
     = Inr [\<lparr>match_id = 2, match_content = ''Co-op work permits'', match_metadata = None,
             similarity = Finite (- 1)\<rparr>]
   \<and> \<not> (0 \<le> (- 1 :: real))
   \<and> embedding doc_zero = Some (axis_vector 0)
   \<and> vector_1536 (axis_vector 0)
   \<and> match_documents [doc_zero] (axis_vector 1) (Finite (4 / 5)) 5
     = Inr [\<lparr>match_id = 4, match_content = ''Tuition payment plans'', match_metadata = None,
             similarity = NaN\<rparr>]"
  by (simp add: match_documents_def match_documents_with_def scored_def
       doc_against_def doc_zero_def cosine_distance_axis cosine_distance_axis_zero
       order_desc_def vector_1536_axis)

text \<open>
  Claim C3, amended. Every similarity score the query returns, for every query vector,
  every table of documents, every threshold and every count, is 1 minus the cosine distance
  of a stored embedding to the query and stands above the threshold in the store's order.
  With the distance computed exactly, it is NaN exactly when that embedding or the query is
  the zero vector, and otherwise a number in the interval from -1 to 1; so a score that is a
  number lies in the interval from 0 to 1 whenever the threshold is a number that is not
  negative.
\<close>

theorem C3_similarity_range:
  assumes "match_documents documents q t match_count = Inr matches"
    and "r \<in> set matches"
  shows "t < similarity r
   \<and> (similarity r = NaN \<or> (\<exists>s. similarity r = Finite s \<and> - 1 \<le> s \<and> s \<le> 1))
   \<and> (\<exists>d \<in> set documents. \<exists>e. embedding d = Some e
         \<and> similarity r = 1 - cosine_distance e q
         \<and> (similarity r = NaN \<longleftrightarrow> \<not> nonzero e \<or> \<not> nonzero q))
   \<and> (\<forall>t' s. t = Finite t' \<and> 0 \<le> t' \<and> similarity r = Finite s \<longrightarrow> 0 \<le> s \<and> s \<le> 1)"
proof -
  from assms have "t < similarity r \<and> (\<exists>d \<in> set documents. scored cosine_distance q d = Some r)"
    unfolding match_documents_def by (rule match_documents_with_member)
  then obtain d where d: "d \<in> set documents" and sc: "scored cosine_distance q d = Some r"
    and gt: "t < similarity r"
    by blast
  from sc obtain e where e: "embedding d = Some e" and sim: "similarity r = 1 - cosine_distance e q"
    by (auto simp: scored_Some)
  have nan: "similarity r = NaN \<longleftrightarrow> \<not> nonzero e \<or> \<not> nonzero q"
    unfolding sim by (rule similarity_NaN_iff)
  have range: "similarity r = NaN \<or> (\<exists>s. similarity r = Finite s \<and> - 1 \<le> s \<and> s \<le> 1)"
  proof (cases "nonzero e \<and> nonzero q")
    case True
    then show ?thesis unfolding sim using similarity_number [of e q] by blast
  next
    case False
    then show ?thesis using nan by blast
  qed
  have unit: "\<forall>t' s. t = Finite t' \<and> 0 \<le> t' \<and> similarity r = Finite s \<longrightarrow> 0 \<le> s \<and> s \<le> 1"
    using gt range by auto
  from gt range d e sim nan unit show ?thesis by blast
qed

text \<open>
  Claim C3, amended, on four stored documents with threshold -2: the document with the zero
  embedding comes first with score NaN, then the two other embedded documents with scores 1
  and -1; the document without an embedding has no score and is left out.
\<close>

theorem C3_similarity_range_witness:
  "match_documents [doc_against, doc_unembedded, doc_along, doc_zero] (axis_vector 1)
       (Finite (- 2)) 5
     = Inr [\<lparr>match_id = 4, match_content = ''Tuition payment plans'', match_metadata = None,
             similarity = NaN\<rparr>,
            \<lparr>match_id = 1, match_content = ''Study permit processing times'', match_metadata = None,
             similarity = Finite 1\<rparr>,
            \<lparr>match_id = 2, match_content = ''Co-op work permits'', match_metadata = None,
             similarity = Finite (- 1)\<rparr>]
   \<and> Finite (- 2) < NaN \<and> Finite (- 2) < Finite (- 1)
   \<and> - 1 \<le> (- 1 :: real) \<and> (- 1 :: real) \<le> 1
   \<and> embedding doc_zero = Some (axis_vector 0) \<and> \<not> nonzero (axis_vector 0)
   \<and> embedding doc_against = Some (axis_vector (- 1)) \<and> nonzero (axis_vector (- 1))
   \<and> nonzero (axis_vector 1)"
proof -
  let ?docs = "[doc_against, doc_unembedded, doc_along, doc_zero]"
  let ?n = "\<lparr>match_id = 4, match_content = ''Tuition payment plans'', match_metadata = None,
             similarity = NaN\<rparr>"
  let ?a = "\<lparr>match_id = 2, match_content = ''Co-op work permits'', match_metadata = None,
             similarity = Finite (- 1)\<rparr>"
  let ?ms = "[?n, \<lparr>match_id = 1, match_content = ''Study permit processing times'',
                  match_metadata = None, similarity = Finite 1\<rparr>, ?a]"
  have res: "match_documents ?docs (axis_vector 1) (Finite (- 2)) 5 = Inr ?ms"
    by (simp add: match_documents_def match_documents_with_def scored_def
         doc_along_def doc_against_def doc_unembedded_def doc_zero_def
         cosine_distance_axis cosine_distance_axis_zero order_desc_def)
  have n: "?n \<in> set ?ms" and a: "?a \<in> set ?ms" by simp_all
  have emb: "embedding doc_zero = Some (axis_vector 0)"
    "embedding doc_against = Some (axis_vector (- 1))"
    by (simp_all add: doc_zero_def doc_against_def)
  have vec: "\<not> nonzero (axis_vector 0)" "nonzero (axis_vector (- 1))" "nonzero (axis_vector 1)"
    by (simp_all add: nonzero_def axis_vector_def)
  from C3_similarity_range [OF res n] C3_similarity_range [OF res a]
  have "Finite (- 2) < NaN \<and> Finite (- 2) < Finite (- 1)
        \<and> - 1 \<le> (- 1 :: real) \<and> (- 1 :: real) \<le> 1"
    by simp
  with res emb vec show ?thesis by blast
qed

section \<open>Properties of the rendering\<close>

lemma tags_blocks_equal: "tags_block_isArray s = tags_block_optional s"
  by (simp add: tags_block_isArray_def tags_block_optional_def split: option.splits)

lemma tags_block_optional_first_four:
  "tags_block_optional s =
     Element ''div'' [(''className'', ''flex flex-wrap gap-2'')]
       (map tag_badge (take 4 (case tags s of None \<Rightarrow> [] | Some ts \<Rightarrow> ts)))"
  by (simp add: tags_block_optional_def split: option.splits)

lemma CardContent_two_blocks:
  "\<exists>before after. CardContent toLocaleDateString s
     = before @ [tags_block_isArray s, tags_block_optional s] @ after"
  unfolding CardContent_def by blast

text \<open>
  Claim C9. The two tag blocks of a scholarship card are the same element: a
  \<^verbatim>\<open>div\<close> holding one badge for each of the first four tags (none when there are no
  tags). The grid renders one card per scholarship, in order, and in the content of every
  card the two blocks stand next to each other.
\<close>

theorem C9_tags_rendered_twice:
  "tags_block_isArray s = tags_block_optional s
   \<and> tags_block_optional s =
       Element ''div'' [(''className'', ''flex flex-wrap gap-2'')]
         (map tag_badge (take 4 (case tags s of None \<Rightarrow> [] | Some ts \<Rightarrow> ts)))
   \<and> length (element_children (ScholarshipGrid toLocaleDateString scholarships))
       = length scholarships
   \<and> (\<forall>i < length scholarships. \<exists>before after.
         element_children (ScholarshipGrid toLocaleDateString scholarships) ! i =
           Element ''Card'' [(''key'', resource_id (scholarships ! i)),
                             (''className'', ''hover:shadow-lg transition'')]
             [Element ''CardHeader'' [] (CardHeader (scholarships ! i)),
              Element ''CardContent'' [(''className'', ''space-y-4'')]
                (before @ [tags_block_isArray (scholarships ! i),
                           tags_block_optional (scholarships ! i)] @ after)])"
proof (intro conjI allI impI)
  show "tags_block_isArray s = tags_block_optional s"
    by (rule tags_blocks_equal)
  show "tags_block_optional s =
       Element ''div'' [(''className'', ''flex flex-wrap gap-2'')]
         (map tag_badge (take 4 (case tags s of None \<Rightarrow> [] | Some ts \<Rightarrow> ts)))"
    by (rule tags_block_optional_first_four)
  show "length (element_children (ScholarshipGrid toLocaleDateString scholarships))
       = length scholarships"
    by (simp add: ScholarshipGrid_def)
  fix i
  assume i: "i < length scholarships"
  obtain before after where
    "CardContent toLocaleDateString (scholarships ! i)
       = before @ [tags_block_isArray (scholarships ! i), tags_block_optional (scholarships ! i)] @ after"
    using CardContent_two_blocks by blast
  with i show "\<exists>before after.
         element_children (ScholarshipGrid toLocaleDateString scholarships) ! i =
           Element ''Card'' [(''key'', resource_id (scholarships ! i)),
                             (''className'', ''hover:shadow-lg transition'')]
             [Element ''CardHeader'' [] (CardHeader (scholarships ! i)),
              Element ''CardContent'' [(''className'', ''space-y-4'')]
                (before @ [tags_block_isArray (scholarships ! i),
                           tags_block_optional (scholarships ! i)] @ after)]"
    by (auto simp: ScholarshipGrid_def)
qed

text \<open>
  Claim C9 on the first scholarship of the seed script, which has five tags, shown without
  deadline and link: the content of its card is the block of its first four tags, twice.
\<close>

theorem C9_tags_rendered_twice_witness:
  "(0::nat) < length [vanier\<lparr>deadline := None, url := None\<rparr>]
   \<and> CardContent (\<lambda>d. d) (vanier\<lparr>deadline := None, url := None\<rparr>) =
     [Element ''div'' [(''className'', ''flex flex-wrap gap-2'')]
        [tag_badge ''doctoral'', tag_badge ''fully-funded'', tag_badge ''government'',
         tag_badge ''prestigious''],
      Element ''div'' [(''className'', ''flex flex-wrap gap-2'')]
        [tag_badge ''doctoral'', tag_badge ''fully-funded'', tag_badge ''government'',
         tag_badge ''prestigious'']]"
  using C9_tags_rendered_twice
          [of "vanier\<lparr>deadline := None, url := None\<rparr>" "\<lambda>d. d"
              "[vanier\<lparr>deadline := None, url := None\<rparr>]"]
  by (simp add: CardContent_def when_present_def vanier_def tags_block_isArray_def
        tags_block_optional_def)

end
